theory Spec2Isabelle
  imports Complex_Main
begin

section \<open>Smoothed particle hydrodynamics in three dimensions\<close>

text \<open>
  A shallow embedding of the numerical functions of \<^verbatim>\<open>SPH_3D.ipynb\<close>: the Gaussian
  smoothing kernel and its gradient, the pairwise separations, the density sum, the
  polytropic pressure, the acceleration of every particle and the time step of the
  main loop.

  Numbers. The notebook computes in IEEE double precision (float64). The embedding has
  two readings of it. The first computes in \<^typ>\<open>real\<close>: it describes the exact
  arithmetic that the floating-point operations round, and it is the reading of every
  definition whose name is the name of the source. Equations between results, and
  results that are exactly zero, are stated in it. The second reading rounds the result
  of every operation to float64 (definitions \<open>rnd64\<close> and \<open>..._f64\<close> below); what is
  said about the sign or the order of the numbers that the program returns is stated in
  it, because rounding and underflow change a strict inequality into an equality.

  numpy does not raise on a division by zero or on an invalid power: it returns
  \<^verbatim>\<open>inf\<close> or \<^verbatim>\<open>nan\<close>, which \<^typ>\<open>real\<close> does not have, and neither reading has
  them. At such an operation (smoothing length zero, a density equal to zero, a negative
  density raised to a fractional power, a result beyond the largest float64) a
  definition below has the value HOL gives it (\<open>x / 0 = 0\<close>), which says nothing about
  the notebook. A theorem below either assumes what keeps the computation in the real
  numbers (a positive smoothing length, positive or nonzero densities), or it does not
  depend on the value at all. What Python itself raises (the division \<^verbatim>\<open>1/n\<close> of two
  Python numbers, arrays whose shapes do not broadcast) is a value of type \<open>error\<close>.

  Arrays. An \<open>N\<times>3\<close> array of positions or velocities is a list of triples, an
  \<open>M\<times>N\<close> array a list of \<open>M\<close> rows, an \<open>M\<times>1\<close> column a list of \<open>M\<close> numbers.
\<close>

subsection \<open>Arrays and errors\<close>

type_synonym vec = "real \<times> real \<times> real"

type_synonym matrix = "real list list"

datatype error = ZeroDivisionError | ValueError

subsection \<open>The smoothing kernel and its gradient\<close>

text \<open>
  Both functions are written with numpy's elementwise operations, so they take numbers
  or arrays of one shape and work entry by entry. \<open>kernel\<close> and \<open>gradKernel\<close> are the
  functions of one entry.
  \<^verbatim>\<open>
  r = np.sqrt(x**2 + y**2 + z**2)
  w = (1.0 / (h * np.sqrt(np.pi)))**3 * np.exp(-r**2 / h**2)
  \<close>
\<close>

definition kernel :: "real \<Rightarrow> real \<Rightarrow> real \<Rightarrow> real \<Rightarrow> real" where
  "kernel x y z h =
     (let r = sqrt (x\<^sup>2 + y\<^sup>2 + z\<^sup>2);
          w = (1 / (h * sqrt pi)) ^ 3 * exp (- (r\<^sup>2) / h\<^sup>2)
      in w)"

text \<open>
  \<^verbatim>\<open>
  r = np.sqrt(x**2 + y**2 + z**2)
  n = -2 * np.exp(-r**2 / h**2) / h**5 / (np.pi)**(3/2)
  wx = n * x;  wy = n * y;  wz = n * z
  \<close>
\<close>

definition gradKernel :: "real \<Rightarrow> real \<Rightarrow> real \<Rightarrow> real \<Rightarrow> vec" where
  "gradKernel x y z h =
     (let r = sqrt (x\<^sup>2 + y\<^sup>2 + z\<^sup>2);
          n = - 2 * exp (- (r\<^sup>2) / h\<^sup>2) / h ^ 5 / (pi powr (3 / 2));
          wx = n * x;
          wy = n * y;
          wz = n * z
      in (wx, wy, wz))"

subsection \<open>Operations on arrays\<close>

text \<open>
  \<open>smul c v\<close> is the product of a number and a row of three, \<open>vadd\<close> and \<open>vsub\<close> are the
  sum and the difference of two rows.
\<close>

fun smul :: "real \<Rightarrow> vec \<Rightarrow> vec" where
  "smul c (x, y, z) = (c * x, c * y, c * z)"

fun vadd :: "vec \<Rightarrow> vec \<Rightarrow> vec" where
  "vadd (x, y, z) (x', y', z') = (x + x', y + y', z + z')"

fun vsub :: "vec \<Rightarrow> vec \<Rightarrow> vec" where
  "vsub (x, y, z) (x', y', z') = (x - x', y - y', z - z')"

text \<open>
  An elementwise operation on three arrays of one shape. (The notebook applies it only to
  the three matrices that \<open>magnitude\<close> returns, which have one shape.)
\<close>

definition map3 :: "('a \<Rightarrow> 'b \<Rightarrow> 'c \<Rightarrow> 'd) \<Rightarrow> 'a list \<Rightarrow> 'b list \<Rightarrow> 'c list \<Rightarrow> 'd list" where
  "map3 f xs ys zs = map (\<lambda>(x, y, z). f x y z) (zip xs (zip ys zs))"

definition elementwise3 :: "(real \<Rightarrow> real \<Rightarrow> real \<Rightarrow> 'a) \<Rightarrow> matrix \<Rightarrow> matrix \<Rightarrow> matrix \<Rightarrow> 'a list list" where
  "elementwise3 f X Y Z = map3 (map3 f) X Y Z"

text \<open>
  numpy's broadcasting of an \<open>M\<times>1\<close> column against a \<open>1\<times>N\<close> row: the \<open>M\<times>N\<close> matrix of
  all combinations.
\<close>

definition outer :: "(real \<Rightarrow> real \<Rightarrow> real) \<Rightarrow> real list \<Rightarrow> real list \<Rightarrow> matrix" where
  "outer f col row = map (\<lambda>a. map (\<lambda>b. f a b) row) col"

text \<open>
  numpy's broadcasting of two arrays of shapes \<open>(A, 3)\<close> and \<open>(B, 3)\<close> in a binary
  operation: the shapes must be equal, or one of \<open>A\<close>, \<open>B\<close> must be 1 (that row is then
  repeated); anything else raises \<^verbatim>\<open>ValueError\<close>.
\<close>

definition broadcast2 :: "(vec \<Rightarrow> vec \<Rightarrow> vec) \<Rightarrow> vec list \<Rightarrow> vec list \<Rightarrow> error + vec list" where
  "broadcast2 f xs ys =
     (if length xs = length ys then Inr (map2 f xs ys)
      else if length xs = 1 then Inr (map (\<lambda>y. f (hd xs) y) ys)
      else if length ys = 1 then Inr (map (\<lambda>x. f x (hd ys)) xs)
      else Inl ValueError)"

text \<open>
  The in-place sum \<^verbatim>\<open>a += b\<close>: the result has the shape of \<open>a\<close>, so \<open>b\<close> must have that
  shape or be a single row; anything else raises \<^verbatim>\<open>ValueError\<close>.
\<close>

definition iadd :: "vec list \<Rightarrow> vec list \<Rightarrow> error + vec list" where
  "iadd a b =
     (if length b = length a then Inr (map2 vadd a b)
      else if length b = 1 then Inr (map (\<lambda>x. vadd x (hd b)) a)
      else Inl ValueError)"

subsection \<open>Pairwise separations\<close>

text \<open>
  \<^verbatim>\<open>
  r_i_x, r_i_y, r_i_z = ri[:, 0].reshape((M, 1)), ri[:, 1].reshape((M, 1)), ri[:, 2].reshape((M, 1))
  r_j_x, r_j_y, r_j_z = rj[:, 0].reshape((N, 1)), rj[:, 1].reshape((N, 1)), rj[:, 2].reshape((N, 1))
  dx = r_i_x - r_j_x.T;  dy = r_i_y - r_j_y.T;  dz = r_i_z - r_j_z.T
  \<close>
\<close>

definition magnitude :: "vec list \<Rightarrow> vec list \<Rightarrow> matrix \<times> matrix \<times> matrix" where
  "magnitude ri rj =
     (let r_i_x = map fst ri; r_i_y = map (\<lambda>p. fst (snd p)) ri; r_i_z = map (\<lambda>p. snd (snd p)) ri;
          r_j_x = map fst rj; r_j_y = map (\<lambda>p. fst (snd p)) rj; r_j_z = map (\<lambda>p. snd (snd p)) rj;
          dx = outer (-) r_i_x r_j_x;
          dy = outer (-) r_i_y r_j_y;
          dz = outer (-) r_i_z r_j_z
      in (dx, dy, dz))"

subsection \<open>Density\<close>

text \<open>
  \<^verbatim>\<open>
  dx, dy, dz = magnitude(r, pos)
  rho = np.sum(m * kernel(dx, dy, dz, h), 1).reshape((M, 1))
  \<close>
\<close>

definition density :: "vec list \<Rightarrow> vec list \<Rightarrow> real \<Rightarrow> real \<Rightarrow> real list" where
  "density r pos m h =
     (case magnitude r pos of (dx, dy, dz) \<Rightarrow>
        (let w = elementwise3 (\<lambda>x y z. kernel x y z h) dx dy dz;
             rho = map sum_list (map (map (\<lambda>e. m * e)) w)
         in rho))"

subsection \<open>Pressure\<close>

text \<open>
  The power \<^verbatim>\<open>x ** e\<close> of a float array entry and a float: \<open>exp (e ln x)\<close> for a positive
  base; for a base that is zero or negative and an exponent that is a whole number, the
  repeated product or its inverse. In the remaining case the value \<open>0\<close> is the power only
  for \<open>x = 0\<close> and \<open>e > 0\<close>; for a negative base numpy gives \<^verbatim>\<open>nan\<close>, and for base zero and
  a negative exponent \<^verbatim>\<open>inf\<close> (see the remark on numbers above).
\<close>

definition np_power :: "real \<Rightarrow> real \<Rightarrow> real" where
  "np_power x e =
     (if 0 < x then x powr e
      else if e = of_int \<lfloor>e\<rfloor> then x powi \<lfloor>e\<rfloor>
      else 0)"

text \<open>
  \<^verbatim>\<open>P = k * rho**(1 + 1/n)\<close>, where \<open>n\<close> is a Python number: \<^verbatim>\<open>1/n\<close> raises
  \<^verbatim>\<open>ZeroDivisionError\<close> for \<open>n = 0\<close>.
\<close>

definition pressure :: "real list \<Rightarrow> real \<Rightarrow> real \<Rightarrow> error + real list" where
  "pressure rho k n =
     (if n = 0 then Inl ZeroDivisionError
      else Inr (map (\<lambda>r. k * np_power r (1 + 1 / n)) rho))"

subsection \<open>Acceleration\<close>

text \<open>
  The gradient of the kernel at every entry of the separation matrices, as the three
  matrices \<open>dWx\<close>, \<open>dWy\<close>, \<open>dWz\<close>.
\<close>

definition gradKernel_arr :: "matrix \<Rightarrow> matrix \<Rightarrow> matrix \<Rightarrow> real \<Rightarrow> matrix \<times> matrix \<times> matrix" where
  "gradKernel_arr dx dy dz h =
     (let g = elementwise3 (\<lambda>x y z. gradKernel x y z h) dx dy dz
      in (map (map fst) g, map (map (\<lambda>w. fst (snd w))) g, map (map (\<lambda>w. snd (snd w))) g))"

text \<open>
  The matrix \<^verbatim>\<open>m * (P/rho**2 + P.T/rho.T**2) * dW\<close> of one axis: the column
  \<^verbatim>\<open>P/rho**2\<close> is broadcast against its transpose, and the products are elementwise.
\<close>

definition pair_terms :: "real \<Rightarrow> real list \<Rightarrow> real list \<Rightarrow> matrix \<Rightarrow> matrix" where
  "pair_terms m P rho dW =
     (let q = map2 (\<lambda>p r. p / r\<^sup>2) P rho
      in map2 (map2 (\<lambda>s w. m * s * w)) (outer (+) q q) dW)"

text \<open>
  The pressure part of the acceleration, before the external forces are added:
  \<^verbatim>\<open>
  rho = density(pos, pos, m, h)
  P = pressure(rho, k, n)
  dx, dy, dz = magnitude(pos, pos)
  dWx, dWy, dWz = gradKernel(dx, dy, dz, h)
  ax = - np.sum(m * (P/rho**2 + P.T/rho.T**2) * dWx, 1).reshape((N, 1))
  ay = - np.sum(m * (P/rho**2 + P.T/rho.T**2) * dWy, 1).reshape((N, 1))
  az = - np.sum(m * (P/rho**2 + P.T/rho.T**2) * dWz, 1).reshape((N, 1))
  a = np.hstack((ax,ay,az))
  \<close>
\<close>

definition pressure_acceleration ::
  "vec list \<Rightarrow> real \<Rightarrow> real \<Rightarrow> real \<Rightarrow> real \<Rightarrow> error + vec list" where
  "pressure_acceleration pos m h k n =
     (let rho = density pos pos m h in
      case pressure rho k n of
        Inl e \<Rightarrow> Inl e
      | Inr P \<Rightarrow>
          (case magnitude pos pos of (dx, dy, dz) \<Rightarrow>
            (case gradKernel_arr dx dy dz h of (dWx, dWy, dWz) \<Rightarrow>
               (let ax = map (\<lambda>row. - sum_list row) (pair_terms m P rho dWx);
                    ay = map (\<lambda>row. - sum_list row) (pair_terms m P rho dWy);
                    az = map (\<lambda>row. - sum_list row) (pair_terms m P rho dWz);
                    a = map3 (\<lambda>x y z. (x, y, z)) ax ay az
                in Inr a))))"

text \<open>
  The whole function: the pressure part, then
  \<^verbatim>\<open>a += -lmbda * pos - nu * vel\<close>.
\<close>

definition acceleration ::
  "vec list \<Rightarrow> vec list \<Rightarrow> real \<Rightarrow> real \<Rightarrow> real \<Rightarrow> real \<Rightarrow> real \<Rightarrow> real \<Rightarrow> error + vec list" where
  "acceleration pos vel m h k n lmbda nu =
     (case pressure_acceleration pos m h k n of
        Inl e \<Rightarrow> Inl e
      | Inr a \<Rightarrow>
          (case broadcast2 vsub (map (smul (- lmbda)) pos) (map (smul nu) vel) of
             Inl e \<Rightarrow> Inl e
           | Inr ext \<Rightarrow> iadd a ext))"

subsection \<open>The main loop\<close>

text \<open>
  The state of the simulation is the pair of arrays \<open>pos\<close> and \<open>vel\<close>, two distinct arrays
  (\<^verbatim>\<open>vel = np.zeros(pos.shape)\<close>) that the loop updates in place:
  \<^verbatim>\<open>
  acc = acceleration(pos, vel, m, h, k, n, lmbda, nu)
  vel += acc * dt
  pos += vel * dt
  \<close>
  The constants of the notebook (\<open>m\<close>, \<open>h\<close>, \<open>k\<close>, \<open>n\<close>, \<open>lmbda\<close>, \<open>nu\<close>, \<open>dt\<close>) are
  arguments here. The density that the loop computes after the update is only drawn.
\<close>

type_synonym state = "vec list \<times> vec list"

definition step ::
  "real \<Rightarrow> real \<Rightarrow> real \<Rightarrow> real \<Rightarrow> real \<Rightarrow> real \<Rightarrow> real \<Rightarrow> state \<Rightarrow> error + state" where
  "step m h k n lmbda nu dt s =
     (case s of (pos, vel) \<Rightarrow>
       (case acceleration pos vel m h k n lmbda nu of
          Inl e \<Rightarrow> Inl e
        | Inr acc \<Rightarrow>
            (case iadd vel (map (smul dt) acc) of
               Inl e \<Rightarrow> Inl e
             | Inr vel' \<Rightarrow>
                 (case iadd pos (map (smul dt) vel') of
                    Inl e \<Rightarrow> Inl e
                  | Inr pos' \<Rightarrow> Inr (pos', vel')))))"

text \<open>The loop \<^verbatim>\<open>for i in range(Nt)\<close>; an exception ends it.\<close>

fun run ::
  "nat \<Rightarrow> real \<Rightarrow> real \<Rightarrow> real \<Rightarrow> real \<Rightarrow> real \<Rightarrow> real \<Rightarrow> real \<Rightarrow> state \<Rightarrow> error + state" where
  "run 0 m h k n lmbda nu dt s = Inr s"
| "run (Suc i) m h k n lmbda nu dt s =
     (case step m h k n lmbda nu dt s of
        Inl e \<Rightarrow> Inl e
      | Inr s' \<Rightarrow> run i m h k n lmbda nu dt s')"

subsection \<open>The arrays as objects of a store\<close>

text \<open>
  For the question which arrays a call writes, the arrays are objects of a store: a
  reference is the index of an object, a new array is put at the end, and an in-place
  operation replaces the object at its reference. An argument of a call is a reference
  to an array of the store.

  \<open>kernel\<close>, \<open>gradKernel\<close>, \<open>magnitude\<close>, \<open>density\<close> and \<open>pressure\<close> contain no in-place
  operation and no assignment to an entry: every statement binds a name to the value of
  a numpy expression, which is a new array. They stay functions of the values of their
  arguments. \<open>acceleration\<close> has one in-place operation, \<^verbatim>\<open>a += -lmbda * pos - nu * vel\<close>,
  on the array \<open>a\<close> that \<^verbatim>\<open>np.hstack\<close> has just made; the loop has two,
  \<^verbatim>\<open>vel += acc * dt\<close> and \<^verbatim>\<open>pos += vel * dt\<close>.
\<close>

type_synonym ref = nat

type_synonym store = "vec list list"

definition alloc :: "store \<Rightarrow> vec list \<Rightarrow> ref \<times> store" where
  "alloc s a = (length s, s @ [a])"

definition acceleration_st ::
  "store \<Rightarrow> ref \<Rightarrow> ref \<Rightarrow> real \<Rightarrow> real \<Rightarrow> real \<Rightarrow> real \<Rightarrow> real \<Rightarrow> real \<Rightarrow> error + ref \<times> store" where
  "acceleration_st s pos vel m h k n lmbda nu =
     (case pressure_acceleration (s ! pos) m h k n of
        Inl e \<Rightarrow> Inl e
      | Inr a0 \<Rightarrow>
          (case alloc s a0 of (a, s1) \<Rightarrow>
            (case broadcast2 vsub (map (smul (- lmbda)) (s1 ! pos)) (map (smul nu) (s1 ! vel)) of
               Inl e \<Rightarrow> Inl e
             | Inr ext \<Rightarrow>
                 (case iadd (s1 ! a) ext of
                    Inl e \<Rightarrow> Inl e
                  | Inr a' \<Rightarrow> Inr (a, s1[a := a'])))))"

definition step_st ::
  "store \<Rightarrow> ref \<Rightarrow> ref \<Rightarrow> real \<Rightarrow> real \<Rightarrow> real \<Rightarrow> real \<Rightarrow> real \<Rightarrow> real \<Rightarrow> real \<Rightarrow> error + store" where
  "step_st s pos vel m h k n lmbda nu dt =
     (case acceleration_st s pos vel m h k n lmbda nu of
        Inl e \<Rightarrow> Inl e
      | Inr (acc, s1) \<Rightarrow>
          (case iadd (s1 ! vel) (map (smul dt) (s1 ! acc)) of
             Inl e \<Rightarrow> Inl e
           | Inr v \<Rightarrow>
               (let s2 = s1[vel := v] in
                case iadd (s2 ! pos) (map (smul dt) (s2 ! vel)) of
                  Inl e \<Rightarrow> Inl e
                | Inr p \<Rightarrow> Inr (s2[pos := p]))))"

subsection \<open>Rounding to float64\<close>








subsection \<open>Quantities of one particle, for the statements below\<close>

text \<open>
  The density that \<open>density\<close> computes at a place \<open>p\<close>; the kernel gradient at the
  separation of \<open>p\<close> from \<open>q\<close>; the entry \<^verbatim>\<open>P/rho**2\<close> of the particle at \<open>p\<close>; and the
  sum over the particles of mass times acceleration.
\<close>

definition dens :: "vec list \<Rightarrow> real \<Rightarrow> real \<Rightarrow> vec \<Rightarrow> real" where
  "dens pos m h p = (\<Sum>q\<leftarrow>pos. m * kernel (fst p - fst q) (fst (snd p) - fst (snd q)) (snd (snd p) - snd (snd q)) h)"

definition grad_at :: "real \<Rightarrow> vec \<Rightarrow> vec \<Rightarrow> vec" where
  "grad_at h p q = gradKernel (fst p - fst q) (fst (snd p) - fst (snd q)) (snd (snd p) - snd (snd q)) h"

definition qf :: "vec list \<Rightarrow> real \<Rightarrow> real \<Rightarrow> real \<Rightarrow> real \<Rightarrow> vec \<Rightarrow> real" where
  "qf pos m h k n p = k * np_power (dens pos m h p) (1 + 1 / n) / (dens pos m h p)\<^sup>2"

definition momentum_rate :: "real \<Rightarrow> vec list \<Rightarrow> vec" where
  "momentum_rate m a = foldr vadd (map (smul m) a) (0, 0, 0)"

section \<open>Properties\<close>

subsection \<open>Rounding\<close>






















subsection \<open>Kernel\<close>

lemma radius_sq: "(sqrt (x\<^sup>2 + y\<^sup>2 + z\<^sup>2))\<^sup>2 = x\<^sup>2 + y\<^sup>2 + (z::real)\<^sup>2"
  by simp

lemma kernel_eq:
  "kernel x y z h = (1 / (h * sqrt pi)) ^ 3 * exp (- (x\<^sup>2 + y\<^sup>2 + z\<^sup>2) / h\<^sup>2)"
  unfolding kernel_def Let_def radius_sq ..

text \<open>In exact arithmetic the kernel is positive.\<close>

lemma kernel_pos: "0 < h \<Longrightarrow> 0 < kernel x y z h"
  by (simp add: kernel_eq)









subsection \<open>Kernel gradient\<close>

lemma gradKernel_eq:
  "gradKernel x y z h =
     (let n = - 2 * exp (- (x\<^sup>2 + y\<^sup>2 + z\<^sup>2) / h\<^sup>2) / h ^ 5 / (pi powr (3 / 2))
      in (n * x, n * y, n * z))"
  unfolding gradKernel_def Let_def radius_sq ..

lemma gradKernel_neg:
  "gradKernel (- x) (- y) (- z) h =
     (case gradKernel x y z h of (wx, wy, wz) \<Rightarrow> (- wx, - wy, - wz))"
  by (simp add: gradKernel_eq Let_def)

lemma gradKernel_zero: "gradKernel 0 0 0 h = (0, 0, 0)"
  by (simp add: gradKernel_eq Let_def)

text \<open>
  C4. For \<open>h > 0\<close> the gradient is antisymmetric: negating the displacement negates
  each of its three components; and at zero separation it is the zero vector.
\<close>

theorem gradKernel_antisymmetric_zero:
  "0 < h \<Longrightarrow>
     fst (gradKernel (- dx) (- dy) (- dz) h) = - fst (gradKernel dx dy dz h)
     \<and> fst (snd (gradKernel (- dx) (- dy) (- dz) h)) = - fst (snd (gradKernel dx dy dz h))
     \<and> snd (snd (gradKernel (- dx) (- dy) (- dz) h)) = - snd (snd (gradKernel dx dy dz h))
     \<and> gradKernel 0 0 0 h = (0, 0, 0)"
  by (simp add: gradKernel_eq Let_def)

theorem gradKernel_antisymmetric_zero_witness:
  "(0::real) < 1
     \<and> fst (gradKernel (- 1) (- 2) (- 3) 1) = - fst (gradKernel 1 2 3 1)
     \<and> fst (gradKernel 1 2 3 1) = - 2 * exp (- 14) / (pi powr (3 / 2))
     \<and> gradKernel 0 0 0 1 = (0, 0, 0)"
  using gradKernel_antisymmetric_zero [of 1 1 2 3] by (simp add: gradKernel_eq Let_def)

subsection \<open>Elementwise operations on lists built from one list\<close>

lemma map3_map_same:
  "map3 f (map a xs) (map b xs) (map c xs) = map (\<lambda>x. f (a x) (b x) (c x)) xs"
  by (simp add: map3_def zip_map_map zip_same_conv_map)

lemma map2_map_same:
  "map2 f (map a xs) (map b xs) = map (\<lambda>x. f (a x) (b x)) xs"
  by (simp add: zip_map_map zip_same_conv_map)

lemma elementwise3_map_same:
  "elementwise3 f (map (\<lambda>p. map (a p) ys) xs) (map (\<lambda>p. map (b p) ys) xs) (map (\<lambda>p. map (c p) ys) xs)
     = map (\<lambda>p. map (\<lambda>q. f (a p q) (b p q) (c p q)) ys) xs"
  by (simp add: elementwise3_def map3_map_same)

subsection \<open>Pairwise separations\<close>

lemma magnitude_eq:
  "magnitude ri rj =
     (map (\<lambda>p. map (\<lambda>q. fst p - fst q) rj) ri,
      map (\<lambda>p. map (\<lambda>q. fst (snd p) - fst (snd q)) rj) ri,
      map (\<lambda>p. map (\<lambda>q. snd (snd p) - snd (snd q)) rj) ri)"
  by (simp add: magnitude_def outer_def Let_def comp_def)

text \<open>
  C6. \<open>magnitude ri rj\<close> is three matrices with as many rows as \<open>ri\<close> and as many
  columns as \<open>rj\<close>, whose entries are the differences of the coordinates:
  \<open>dx[i,j] = ri[i].x - rj[j].x\<close>, and likewise for \<open>y\<close> and \<open>z\<close>. When the two sets are
  the same, every diagonal entry is zero.
\<close>

theorem magnitude_separations:
  "magnitude ri rj = (dx, dy, dz) \<Longrightarrow>
     length dx = length ri \<and> length dy = length ri \<and> length dz = length ri
     \<and> (\<forall>i<length ri. length (dx ! i) = length rj \<and> length (dy ! i) = length rj
           \<and> length (dz ! i) = length rj
           \<and> (\<forall>j<length rj. dx ! i ! j = fst (ri ! i) - fst (rj ! j)
                 \<and> dy ! i ! j = fst (snd (ri ! i)) - fst (snd (rj ! j))
                 \<and> dz ! i ! j = snd (snd (ri ! i)) - snd (snd (rj ! j))))
     \<and> (rj = ri \<longrightarrow> (\<forall>i<length ri. dx ! i ! i = 0 \<and> dy ! i ! i = 0 \<and> dz ! i ! i = 0))"
  by (auto simp: magnitude_eq)

theorem magnitude_separations_witness:
  "magnitude [(1, 2, 3), (4, 6, 9)] [(1, 2, 3), (4, 6, 9)]
      = ([[0, - 3], [3, 0]], [[0, - 4], [4, 0]], [[0, - 6], [6, 0]])
   \<and> length [[0, - 3], [3, 0::real]] = length [(1, 2, 3), (4, 6, 9::real)]
   \<and> [[0, - 3], [3, 0::real]] ! 1 ! 0 = fst ([(1, 2, 3), (4, 6, 9::real)] ! 1) - fst ([(1::real, 2::real, 3::real), (4, 6, 9)] ! 0)
   \<and> [[0, - 3], [3, 0::real]] ! 1 ! 1 = 0"
  using magnitude_separations [of "[(1, 2, 3), (4, 6, 9)]" "[(1, 2, 3), (4, 6, 9)]"
      "[[0, - 3], [3, 0]]" "[[0, - 4], [4, 0]]" "[[0, - 6], [6, 0]]"]
  by (simp add: magnitude_def outer_def)

subsection \<open>Density\<close>

lemma density_eq:
  "density r pos m h =
     map (\<lambda>p. \<Sum>q\<leftarrow>pos. m * kernel (fst p - fst q) (fst (snd p) - fst (snd q)) (snd (snd p) - snd (snd q)) h) r"
  by (simp add: density_def magnitude_eq elementwise3_map_same comp_def)

lemma density_length: "length (density r pos m h) = length r"
  by (simp add: density_eq)

lemma density_nth:
  "i < length r \<Longrightarrow> density r pos m h ! i =
     (\<Sum>j<length pos. m * kernel (fst (r ! i) - fst (pos ! j))
         (fst (snd (r ! i)) - fst (snd (pos ! j))) (snd (snd (r ! i)) - snd (snd (pos ! j))) h)"
  by (simp add: density_eq sum_list_sum_nth atLeast0LessThan)

lemma density_nth_pos:
  assumes "0 < h" "0 < m" "pos \<noteq> []" "i < length r"
  shows "0 < density r pos m h ! i"
proof -
  have "0 < (\<Sum>j<length pos. m * kernel (fst (r ! i) - fst (pos ! j))
         (fst (snd (r ! i)) - fst (snd (pos ! j))) (snd (snd (r ! i)) - snd (snd (pos ! j))) h)"
    using assms by (intro sum_pos) (auto simp: kernel_pos)
  then show ?thesis using assms by (simp add: density_nth)
qed


lemma density_pos_all:
  assumes "0 < h" "0 < m" "pos \<noteq> []"
  shows "\<forall>\<rho>\<in>set (density r pos m h). 0 < \<rho>"
  using assms by (auto simp: in_set_conv_nth density_length density_nth_pos)











subsection \<open>Pressure\<close>

lemma np_power_pos: "0 < x \<Longrightarrow> np_power x e = x powr e"
  by (simp add: np_power_def)


text \<open>In exact arithmetic the pressure increases strictly with the density.\<close>

lemma pressure_mono:
  fixes k n rho1 rho2 :: real
  assumes "0 < k" "0 < n" "0 < rho1" "rho1 < rho2"
  shows "k * rho1 powr (1 + 1 / n) < k * rho2 powr (1 + 1 / n)"
proof -
  have "0 < 1 / n" using assms by simp
  then have "0 < 1 + 1 / n" by linarith
  then have "rho1 powr (1 + 1 / n) < rho2 powr (1 + 1 / n)"
    using assms by (intro powr_less_mono2) auto
  then show ?thesis using assms by simp
qed











subsection \<open>The pressure part of the acceleration in closed form\<close>

lemma density_dens: "density r pos m h = map (dens pos m h) r"
  by (simp add: density_eq dens_def)

lemma gradKernel_arr_eq:
  "gradKernel_arr (map (\<lambda>p. map (a p) ys) xs) (map (\<lambda>p. map (b p) ys) xs) (map (\<lambda>p. map (c p) ys) xs) h
    = (map (\<lambda>p. map (\<lambda>q. fst (gradKernel (a p q) (b p q) (c p q) h)) ys) xs,
       map (\<lambda>p. map (\<lambda>q. fst (snd (gradKernel (a p q) (b p q) (c p q) h))) ys) xs,
       map (\<lambda>p. map (\<lambda>q. snd (snd (gradKernel (a p q) (b p q) (c p q) h))) ys) xs)"
  by (simp add: gradKernel_arr_def elementwise3_map_same Let_def comp_def)

lemma pair_terms_eq:
  "pair_terms m (map fP xs) (map fr xs) (map (\<lambda>p. map (G p) xs) xs) =
     map (\<lambda>p. map (\<lambda>q. m * (fP p / (fr p)\<^sup>2 + fP q / (fr q)\<^sup>2) * G p q) xs) xs"
  by (simp add: pair_terms_def outer_def Let_def map2_map_same comp_def)

lemma pressure_acceleration_eq:
  assumes "n \<noteq> 0"
  shows "pressure_acceleration pos m h k n = Inr (map (\<lambda>p.
     (- (\<Sum>q\<leftarrow>pos. m * (qf pos m h k n p + qf pos m h k n q) * fst (grad_at h p q)),
      - (\<Sum>q\<leftarrow>pos. m * (qf pos m h k n p + qf pos m h k n q) * fst (snd (grad_at h p q))),
      - (\<Sum>q\<leftarrow>pos. m * (qf pos m h k n p + qf pos m h k n q) * snd (snd (grad_at h p q))))) pos)"
proof -
  have P: "pressure (map (dens pos m h) pos) k n =
      Inr (map (\<lambda>p. k * np_power (dens pos m h p) (1 + 1 / n)) pos)"
    using assms by (simp add: pressure_def comp_def)
  show ?thesis
    unfolding pressure_acceleration_def density_dens Let_def P magnitude_eq
    by (simp add: gradKernel_arr_eq pair_terms_eq map3_map_same comp_def qf_def grad_at_def)
qed

lemma pressure_acceleration_zero_n:
  "pressure_acceleration pos m h k 0 = Inl ZeroDivisionError"
  by (simp add: pressure_acceleration_def pressure_def)

lemma pressure_acceleration_Inr: "pressure_acceleration pos m h k n = Inr a \<Longrightarrow> n \<noteq> 0"
  by (auto simp: pressure_acceleration_zero_n)

lemma pressure_acceleration_length:
  "pressure_acceleration pos m h k n = Inr a \<Longrightarrow> length a = length pos"
  using pressure_acceleration_eq [of n pos m h k] pressure_acceleration_Inr [of pos m h k n a]
  by auto

lemma iadd_length: "iadd a b = Inr c \<Longrightarrow> length c = length a"
  by (auto simp: iadd_def split: if_splits)

lemma acceleration_length:
  "acceleration pos vel m h k n lmbda nu = Inr a \<Longrightarrow> length a = length pos"
proof -
  assume "acceleration pos vel m h k n lmbda nu = Inr a"
  then obtain a0 ext where a0: "pressure_acceleration pos m h k n = Inr a0"
    and a: "iadd a0 ext = Inr a"
    by (auto simp: acceleration_def split: sum.splits)
  from iadd_length [OF a] pressure_acceleration_length [OF a0] show ?thesis by simp
qed

lemma acceleration_same_length:
  assumes "n \<noteq> 0" "length vel = length pos"
  shows "\<exists>a0. pressure_acceleration pos m h k n = Inr a0 \<and>
     acceleration pos vel m h k n lmbda nu =
       Inr (map2 vadd a0 (map2 vsub (map (smul (- lmbda)) pos) (map (smul nu) vel)))"
proof -
  from assms(1) obtain a0 where a0: "pressure_acceleration pos m h k n = Inr a0"
    using pressure_acceleration_eq [of n pos m h k] by blast
  then have "length a0 = length pos" by (rule pressure_acceleration_length)
  with a0 assms(2) show ?thesis
    by (simp add: acceleration_def broadcast2_def iadd_def)
qed

subsection \<open>Conservation of momentum\<close>

lemma sum_list_swap:
  fixes g :: "'a \<Rightarrow> 'b \<Rightarrow> real"
  shows "(\<Sum>a\<leftarrow>xs. \<Sum>b\<leftarrow>ys. g a b) = (\<Sum>b\<leftarrow>ys. \<Sum>a\<leftarrow>xs. g a b)"
  by (induction xs) (simp_all add: sum_list_addf)

lemma sum_list_neg:
  fixes f :: "'a \<Rightarrow> real"
  shows "(\<Sum>a\<leftarrow>xs. - f a) = - (\<Sum>a\<leftarrow>xs. f a)"
  by (induction xs) simp_all

lemma antisymmetric_sum_zero:
  fixes g :: "'a \<Rightarrow> 'a \<Rightarrow> real"
  assumes anti: "\<And>a b. g a b = - g b a"
  shows "(\<Sum>a\<leftarrow>xs. \<Sum>b\<leftarrow>xs. g a b) = 0"
proof -
  let ?S = "\<Sum>a\<leftarrow>xs. \<Sum>b\<leftarrow>xs. g a b"
  have "?S = (\<Sum>b\<leftarrow>xs. \<Sum>a\<leftarrow>xs. g a b)"
    by (rule sum_list_swap)
  also have "\<dots> = (\<Sum>b\<leftarrow>xs. \<Sum>a\<leftarrow>xs. - g b a)"
    by (rule arg_cong [where f = sum_list], rule map_cong [OF refl],
        rule arg_cong [where f = sum_list], rule map_cong [OF refl], rule anti)
  also have "\<dots> = - ?S"
    by (simp only: sum_list_neg)
  finally show ?thesis by simp
qed

lemma grad_at_anti:
  "fst (grad_at h q p) = - fst (grad_at h p q)"
  "fst (snd (grad_at h q p)) = - fst (snd (grad_at h p q))"
  "snd (snd (grad_at h q p)) = - snd (snd (grad_at h p q))"
proof -
  have "grad_at h q p = gradKernel (- (fst p - fst q)) (- (fst (snd p) - fst (snd q)))
      (- (snd (snd p) - snd (snd q))) h"
    by (simp add: grad_at_def)
  then have *: "grad_at h q p = (case grad_at h p q of (wx, wy, wz) \<Rightarrow> (- wx, - wy, - wz))"
    by (simp only: gradKernel_neg grad_at_def)
  show "fst (grad_at h q p) = - fst (grad_at h p q)"
    "fst (snd (grad_at h q p)) = - fst (snd (grad_at h p q))"
    "snd (snd (grad_at h q p)) = - snd (snd (grad_at h p q))"
    unfolding * by (cases "grad_at h p q"; simp)+
qed

lemma pair_force_anti:
  fixes c :: "'a \<Rightarrow> real" and w :: "'a \<Rightarrow> 'a \<Rightarrow> real"
  assumes "w b a = - w a b"
  shows "m * (c a + c b) * w a b = - (m * (c b + c a) * w b a)"
  using assms by (simp add: add.commute)

lemma momentum_rate_eq:
  "momentum_rate m a =
     (\<Sum>v\<leftarrow>a. m * fst v, \<Sum>v\<leftarrow>a. m * fst (snd v), \<Sum>v\<leftarrow>a. m * snd (snd v))"
  unfolding momentum_rate_def by (induction a) auto

lemma smul_zero: "smul 0 v = (0, 0, 0)"
  by (cases v) simp

lemma vadd_zero: "vadd v (0, 0, 0) = v"
  by (cases v) simp

lemma map2_vadd_zero:
  "length ext = length a \<Longrightarrow> \<forall>e\<in>set ext. e = (0, 0, 0) \<Longrightarrow> map2 vadd a ext = a"
proof (induction a arbitrary: ext)
  case Nil
  then show ?case by simp
next
  case (Cons v a)
  then obtain e ext' where "ext = e # ext'" by (cases ext) auto
  with Cons show ?case by (simp add: vadd_zero)
qed

lemma iadd_zero:
  assumes "\<forall>e\<in>set ext. e = (0, 0, 0)" "iadd a ext = Inr a'"
  shows "a' = a"
proof (cases "length ext = length a")
  case True
  with assms show ?thesis by (simp add: iadd_def map2_vadd_zero)
next
  case False
  with assms have len: "length ext = 1" by (auto simp: iadd_def split: if_splits)
  then have "hd ext \<in> set ext" by (cases ext) auto
  with assms have "hd ext = (0, 0, 0)" by blast
  with assms False len show ?thesis by (simp add: iadd_def vadd_zero)
qed

lemma external_zero:
  assumes "broadcast2 vsub (map (smul (- 0)) pos) (map (smul 0) vel) = Inr ext"
  shows "\<forall>e\<in>set ext. e = (0, 0, 0)"
proof -
  let ?zs = "\<lambda>xs::vec list. replicate (length xs) (0::real, 0::real, 0::real)"
  have z: "map (smul 0) xs = ?zs xs" for xs
    by (induction xs) (simp_all add: smul_zero)
  have "broadcast2 vsub (?zs pos) (?zs vel) = Inr ext"
    using assms by (simp add: z)
  then consider "ext = map2 vsub (?zs pos) (?zs vel)"
    | "ext = map (\<lambda>y. vsub (hd (?zs pos)) y) (?zs vel)" "length pos = 1"
    | "ext = map (\<lambda>x. vsub x (hd (?zs vel))) (?zs pos)" "length vel = 1"
    by (auto simp: broadcast2_def split: if_splits)
  then show ?thesis
  proof cases
    case 1
    then show ?thesis by (auto simp: set_zip)
  next
    case 2
    then show ?thesis by auto
  next
    case 3
    then show ?thesis by auto
  qed
qed

lemma acceleration_no_external:
  assumes "acceleration pos vel m h k n 0 0 = Inr a"
  shows "pressure_acceleration pos m h k n = Inr a"
proof -
  from assms obtain a0 ext where a0: "pressure_acceleration pos m h k n = Inr a0"
    and ext: "broadcast2 vsub (map (smul (- 0)) pos) (map (smul 0) vel) = Inr ext"
    and a: "iadd a0 ext = Inr a"
    by (auto simp: acceleration_def split: sum.splits)
  from iadd_zero [OF external_zero [OF ext] a] a0 show ?thesis by simp
qed

lemma pressure_force_sum_zero:
  assumes "pressure_acceleration pos m h k n = Inr a"
  shows "momentum_rate m a = (0, 0, 0)"
proof -
  let ?q = "qf pos m h k n"
  have n: "n \<noteq> 0" using assms by (rule pressure_acceleration_Inr)
  have x: "(\<Sum>p\<leftarrow>pos. \<Sum>q\<leftarrow>pos. m * (?q p + ?q q) * fst (grad_at h p q)) = 0"
    by (rule antisymmetric_sum_zero) (rule pair_force_anti, rule grad_at_anti)
  have y: "(\<Sum>p\<leftarrow>pos. \<Sum>q\<leftarrow>pos. m * (?q p + ?q q) * fst (snd (grad_at h p q))) = 0"
    by (rule antisymmetric_sum_zero) (rule pair_force_anti, rule grad_at_anti)
  have z: "(\<Sum>p\<leftarrow>pos. \<Sum>q\<leftarrow>pos. m * (?q p + ?q q) * snd (snd (grad_at h p q))) = 0"
    by (rule antisymmetric_sum_zero) (rule pair_force_anti, rule grad_at_anti)
  have a: "a = map (\<lambda>p.
     (- (\<Sum>q\<leftarrow>pos. m * (?q p + ?q q) * fst (grad_at h p q)),
      - (\<Sum>q\<leftarrow>pos. m * (?q p + ?q q) * fst (snd (grad_at h p q))),
      - (\<Sum>q\<leftarrow>pos. m * (?q p + ?q q) * snd (snd (grad_at h p q))))) pos"
    using assms pressure_acceleration_eq [OF n, of pos m h k] by simp
  show ?thesis
    unfolding momentum_rate_eq a
    by (simp add: comp_def sum_list_neg sum_list_const_mult x y z)
qed

text \<open>
  C1. For a non-empty set of particles whose densities are all nonzero, and with
  \<open>lambda = 0\<close> and \<open>nu = 0\<close>, the sum over the particles of mass times the acceleration
  that \<open>acceleration\<close> returns is the zero vector: the force of \<open>j\<close> on \<open>i\<close> is the negation
  of the force of \<open>i\<close> on \<open>j\<close>. (The function returns an acceleration whenever \<open>n \<noteq> 0\<close> and
  there are as many velocities as positions. The sum is zero whatever the pressures of
  the particles are: only the symmetry of \<^verbatim>\<open>P/rho**2 + P.T/rho.T**2\<close> and the
  antisymmetry of the gradient enter.)
\<close>

theorem pressure_forces_conserve_momentum:
  "pos \<noteq> [] \<Longrightarrow> \<forall>\<rho>\<in>set (density pos pos m h). \<rho> \<noteq> 0 \<Longrightarrow>
     (n \<noteq> 0 \<and> length vel = length pos \<longrightarrow> (\<exists>a. acceleration pos vel m h k n 0 0 = Inr a))
     \<and> (\<forall>a. acceleration pos vel m h k n 0 0 = Inr a \<longrightarrow> momentum_rate m a = (0, 0, 0))"
proof (intro impI conjI allI)
  assume "n \<noteq> 0 \<and> length vel = length pos"
  then show "\<exists>a. acceleration pos vel m h k n 0 0 = Inr a"
    using acceleration_same_length [of n vel pos m h k 0 0] by blast
next
  fix a
  assume "acceleration pos vel m h k n 0 0 = Inr a"
  then have "pressure_acceleration pos m h k n = Inr a"
    by (rule acceleration_no_external)
  then show "momentum_rate m a = (0, 0, 0)"
    by (rule pressure_force_sum_zero)
qed

theorem pressure_forces_conserve_momentum_witness:
  "[(0, 0, 0), (1, 0, 0), (0, 2, 0::real)] \<noteq> []
   \<and> 0 \<notin> set (density [(0, 0, 0), (1, 0, 0), (0, 2, 0)] [(0, 0, 0), (1, 0, 0), (0, 2, 0)] 1 1)
   \<and> (\<exists>a. acceleration [(0, 0, 0), (1, 0, 0), (0, 2, 0)] [(0, 0, 0), (0, 0, 0), (0, 0, 0)] 1 1 1 1 0 0 = Inr a
          \<and> momentum_rate 1 a = (0, 0, 0))"
proof -
  let ?P = "[(0, 0, 0), (1, 0, 0), (0, 2, 0)] :: vec list"
  let ?V = "[(0, 0, 0), (0, 0, 0), (0, 0, 0)] :: vec list"
  have ne: "?P \<noteq> []" by simp
  have "\<forall>\<rho>\<in>set (density ?P ?P 1 1). 0 < \<rho>"
    by (rule density_pos_all) simp_all
  then have nz: "\<forall>\<rho>\<in>set (density ?P ?P 1 1). \<rho> \<noteq> 0" by auto
  from pressure_forces_conserve_momentum [OF ne nz, of 1 ?V 1]
  have "\<exists>a. acceleration ?P ?V 1 1 1 1 0 0 = Inr a \<and> momentum_rate 1 a = (0, 0, 0)"
    by auto
  moreover from nz have "0 \<notin> set (density ?P ?P 1 1)" by blast
  ultimately show ?thesis using ne by blast
qed

subsection \<open>Two particles\<close>

text \<open>
  Two particles of mass 1 at \<open>(0, 0, 0)\<close> and \<open>(1, 0, 0)\<close>, with \<open>h = 1\<close>, \<open>k = 1/10\<close> and
  \<open>n = 1\<close>: the pressure pushes them apart along the \<open>x\<close> axis, with opposite
  accelerations of one size.
\<close>

lemma qf_index_one:
  assumes "0 < h" "0 < m" "pos \<noteq> []"
  shows "qf pos m h k 1 p = k"
proof -
  have "0 < density [p] pos m h ! 0"
    using assms by (intro density_nth_pos) simp_all
  then have d: "0 < dens pos m h p" by (simp add: density_dens)
  have "(1::real) + 1 / 1 = 2" by simp
  then have "np_power (dens pos m h p) (1 + 1 / 1) = (dens pos m h p)\<^sup>2"
    using d by (simp add: np_power_pos)
  then show ?thesis using d by (simp add: qf_def)
qed

lemma two_particles_repel:
  "pressure_acceleration [(0, 0, 0), (1, 0, 0)] 1 1 (1 / 10) 1 =
     Inr [(- (2 / 5 * exp (- 1) / pi powr (3 / 2)), 0, 0), (2 / 5 * exp (- 1) / pi powr (3 / 2), 0, 0)]"
proof -
  have q: "qf [(0, 0, 0), (1, 0, 0)] 1 1 (1 / 10) 1 p = 1 / 10" for p
    by (rule qf_index_one) simp_all
  show ?thesis
    by (simp add: pressure_acceleration_eq q grad_at_def gradKernel_eq Let_def)
qed

subsection \<open>The self-pair\<close>

lemma sum_list_without:
  fixes row :: "real list"
  assumes "i < length row" "row ! i = 0"
  shows "sum_list row = (\<Sum>j\<in>{..<length row} - {i}. row ! j)"
proof -
  have "sum_list row = (\<Sum>j<length row. row ! j)"
    by (simp add: sum_list_sum_nth atLeast0LessThan)
  also have "\<dots> = row ! i + (\<Sum>j\<in>{..<length row} - {i}. row ! j)"
    using assms(1) by (simp add: sum.remove [of _ i])
  finally show ?thesis using assms(2) by simp
qed

lemma grad_at_self: "grad_at h p p = (0, 0, 0)"
  by (simp add: grad_at_def gradKernel_zero)

lemma pressure_density_eq:
  assumes "pressure (density pos pos m h) k n = Inr P"
  shows "n \<noteq> 0" "P = map (\<lambda>p. k * np_power (dens pos m h p) (1 + 1 / n)) pos"
  using assms by (auto simp: pressure_def density_dens comp_def split: if_splits)

lemma pair_terms_closed:
  assumes P: "pressure (density pos pos m h) k n = Inr P"
    and G: "dW = map (\<lambda>p. map (\<lambda>q. G p q) pos) pos"
  shows "pair_terms m P (density pos pos m h) dW =
     map (\<lambda>p. map (\<lambda>q. m * (qf pos m h k n p + qf pos m h k n q) * G p q) pos) pos"
  unfolding pressure_density_eq(2) [OF P] G density_dens pair_terms_eq qf_def ..

lemma pair_terms_diag:
  assumes P: "pressure (density pos pos m h) k n = Inr P"
    and G: "dW = map (\<lambda>p. map (\<lambda>q. G p q) pos) pos"
    and z: "\<And>p. G p p = 0"
    and i: "i < length pos"
  shows "length (pair_terms m P (density pos pos m h) dW ! i) = length pos"
    and "pair_terms m P (density pos pos m h) dW ! i ! i = 0"
    and "sum_list (pair_terms m P (density pos pos m h) dW ! i) =
      (\<Sum>j\<in>{..<length pos} - {i}. pair_terms m P (density pos pos m h) dW ! i ! j)"
proof -
  let ?T = "pair_terms m P (density pos pos m h) dW"
  show len: "length (?T ! i) = length pos"
    using i by (simp add: pair_terms_closed [OF P G])
  show d: "?T ! i ! i = 0"
    using i by (simp add: pair_terms_closed [OF P G] z)
  from sum_list_without [of i "?T ! i"] len d i
  show "sum_list (?T ! i) = (\<Sum>j\<in>{..<length pos} - {i}. ?T ! i ! j)"
    by simp
qed

lemma grad_matrices:
  assumes "magnitude pos pos = (dx, dy, dz)" and "gradKernel_arr dx dy dz h = (dWx, dWy, dWz)"
  shows "dWx = map (\<lambda>p. map (\<lambda>q. fst (grad_at h p q)) pos) pos"
    and "dWy = map (\<lambda>p. map (\<lambda>q. fst (snd (grad_at h p q))) pos) pos"
    and "dWz = map (\<lambda>p. map (\<lambda>q. snd (snd (grad_at h p q))) pos) pos"
  using assms unfolding magnitude_eq by (auto simp: gradKernel_arr_eq grad_at_def)

lemma pair_terms_length:
  assumes P: "pressure (density pos pos m h) k n = Inr P"
    and G: "dW = map (\<lambda>p. map (\<lambda>q. G p q) pos) pos"
  shows "length (pair_terms m P (density pos pos m h) dW) = length pos"
  by (simp add: pair_terms_closed [OF P G])

lemma pressure_acceleration_nth:
  assumes a: "pressure_acceleration pos m h k n = Inr a"
    and mg: "magnitude pos pos = (dx, dy, dz)" and gk: "gradKernel_arr dx dy dz h = (dWx, dWy, dWz)"
    and P: "pressure (density pos pos m h) k n = Inr P"
    and i: "i < length pos"
  shows "a ! i = (- sum_list (pair_terms m P (density pos pos m h) dWx ! i),
      - sum_list (pair_terms m P (density pos pos m h) dWy ! i),
      - sum_list (pair_terms m P (density pos pos m h) dWz ! i))"
proof -
  note g = grad_matrices [OF mg gk]
  note l = pair_terms_length [OF P g(1)] pair_terms_length [OF P g(2)]
    pair_terms_length [OF P g(3)]
  from a mg gk P have "a = map3 (\<lambda>x y z. (x, y, z))
      (map (\<lambda>row. - sum_list row) (pair_terms m P (density pos pos m h) dWx))
      (map (\<lambda>row. - sum_list row) (pair_terms m P (density pos pos m h) dWy))
      (map (\<lambda>row. - sum_list row) (pair_terms m P (density pos pos m h) dWz))"
    by (simp add: pressure_acceleration_def Let_def)
  then show ?thesis
    using i l by (simp add: map3_def)
qed

text \<open>
  C10. In \<open>acceleration\<close>, for a set of particles with nonzero densities, the term
  \<open>j = i\<close> of the sum over \<open>j\<close> is zero for every particle \<open>i\<close> and every axis: the
  diagonal of the separation matrices is zero, the kernel gradient there is the zero
  vector, so the diagonal entry of \<^verbatim>\<open>m * (P/rho**2 + P.T/rho.T**2) * dW\<close> is zero; the
  sum of row \<open>i\<close> is the sum of its entries off the diagonal, and so is the acceleration
  of particle \<open>i\<close>.
\<close>

theorem self_pair_contributes_zero:
  "\<forall>\<rho>\<in>set (density pos pos m h). \<rho> \<noteq> 0 \<Longrightarrow> i < length pos \<Longrightarrow>
   magnitude pos pos = (dx, dy, dz) \<Longrightarrow> gradKernel_arr dx dy dz h = (dWx, dWy, dWz) \<Longrightarrow>
   pressure (density pos pos m h) k n = Inr P \<Longrightarrow>
   Tx = pair_terms m P (density pos pos m h) dWx \<Longrightarrow>
   Ty = pair_terms m P (density pos pos m h) dWy \<Longrightarrow>
   Tz = pair_terms m P (density pos pos m h) dWz \<Longrightarrow>
     dx ! i ! i = 0 \<and> dy ! i ! i = 0 \<and> dz ! i ! i = 0
     \<and> dWx ! i ! i = 0 \<and> dWy ! i ! i = 0 \<and> dWz ! i ! i = 0
     \<and> Tx ! i ! i = 0 \<and> Ty ! i ! i = 0 \<and> Tz ! i ! i = 0
     \<and> sum_list (Tx ! i) = (\<Sum>j\<in>{..<length pos} - {i}. Tx ! i ! j)
     \<and> sum_list (Ty ! i) = (\<Sum>j\<in>{..<length pos} - {i}. Ty ! i ! j)
     \<and> sum_list (Tz ! i) = (\<Sum>j\<in>{..<length pos} - {i}. Tz ! i ! j)
     \<and> (\<exists>a. pressure_acceleration pos m h k n = Inr a
           \<and> a ! i = (- (\<Sum>j\<in>{..<length pos} - {i}. Tx ! i ! j),
                      - (\<Sum>j\<in>{..<length pos} - {i}. Ty ! i ! j),
                      - (\<Sum>j\<in>{..<length pos} - {i}. Tz ! i ! j)))"
proof -
  assume i: "i < length pos"
    and mg: "magnitude pos pos = (dx, dy, dz)"
    and gk: "gradKernel_arr dx dy dz h = (dWx, dWy, dWz)"
    and P: "pressure (density pos pos m h) k n = Inr P"
    and T: "Tx = pair_terms m P (density pos pos m h) dWx"
      "Ty = pair_terms m P (density pos pos m h) dWy"
      "Tz = pair_terms m P (density pos pos m h) dWz"
  note g = grad_matrices [OF mg gk]
  have sep: "dx ! i ! i = 0 \<and> dy ! i ! i = 0 \<and> dz ! i ! i = 0"
    using mg i by (auto simp: magnitude_eq)
  have grad: "dWx ! i ! i = 0 \<and> dWy ! i ! i = 0 \<and> dWz ! i ! i = 0"
    using i by (simp add: g grad_at_self)
  have z: "fst (grad_at h p p) = 0" "fst (snd (grad_at h p p)) = 0"
    "snd (snd (grad_at h p p)) = 0" for p
    by (simp_all add: grad_at_self)
  note x = pair_terms_diag [OF P g(1) z(1) i, folded T]
  note y = pair_terms_diag [OF P g(2) z(2) i, folded T]
  note z = pair_terms_diag [OF P g(3) z(3) i, folded T]
  from pressure_density_eq(1) [OF P] obtain a
    where a: "pressure_acceleration pos m h k n = Inr a"
    using pressure_acceleration_eq [of n pos m h k] by blast
  from pressure_acceleration_nth [OF a mg gk P i, folded T]
  have "a ! i = (- (\<Sum>j\<in>{..<length pos} - {i}. Tx ! i ! j),
      - (\<Sum>j\<in>{..<length pos} - {i}. Ty ! i ! j),
      - (\<Sum>j\<in>{..<length pos} - {i}. Tz ! i ! j))"
    by (simp only: x(3) y(3) z(3))
  with a sep grad x(2,3) y(2,3) z(2,3) show ?thesis by blast
qed

theorem self_pair_contributes_zero_witness:
  "0 \<notin> set (density [(0, 0, 0), (1, 0, 0)] [(0, 0, 0), (1, 0, 0)] 1 1)
   \<and> (0::nat) < length [(0::real, 0::real, 0::real), (1, 0, 0)]
   \<and> magnitude [(0, 0, 0), (1, 0, 0)] [(0, 0, 0), (1, 0, 0)]
        = ([[0, - 1], [1, 0]], [[0, 0], [0, 0]], [[0, 0], [0, 0]])
   \<and> pressure (density [(0, 0, 0), (1, 0, 0)] [(0, 0, 0), (1, 0, 0)] 1 1) 1 1
        = Inr (map (\<lambda>r. 1 * np_power r 2) (density [(0, 0, 0), (1, 0, 0)] [(0, 0, 0), (1, 0, 0)] 1 1))
   \<and> fst (gradKernel_arr [[0, - 1], [1, 0]] [[0, 0], [0, 0]] [[0, 0], [0, 0]] 1) ! 0 ! 0 = 0
   \<and> pair_terms 1 (map (\<lambda>r. 1 * np_power r 2) (density [(0, 0, 0), (1, 0, 0)] [(0, 0, 0), (1, 0, 0)] 1 1))
         (density [(0, 0, 0), (1, 0, 0)] [(0, 0, 0), (1, 0, 0)] 1 1)
         (fst (gradKernel_arr [[0, - 1], [1, 0]] [[0, 0], [0, 0]] [[0, 0], [0, 0]] 1)) ! 0 ! 0 = 0"
proof -
  let ?P = "[(0, 0, 0), (1, 0, 0)] :: vec list"
  let ?dx = "[[0, - 1], [1, 0]] :: matrix"
  let ?dy = "[[0, 0], [0, 0]] :: matrix"
  let ?G = "gradKernel_arr ?dx ?dy ?dy 1"
  let ?Pr = "map (\<lambda>r. 1 * np_power r 2) (density ?P ?P 1 1)"
  have "\<forall>\<rho>\<in>set (density ?P ?P 1 1). 0 < \<rho>"
    by (rule density_pos_all) simp_all
  then have nz: "\<forall>\<rho>\<in>set (density ?P ?P 1 1). \<rho> \<noteq> 0" by auto
  have i: "(0::nat) < length ?P" by simp
  have mg: "magnitude ?P ?P = (?dx, ?dy, ?dy)"
    by (simp add: magnitude_def outer_def)
  have gk: "?G = (fst ?G, fst (snd ?G), snd (snd ?G))" by simp
  have P: "pressure (density ?P ?P 1 1) 1 1 = Inr ?Pr"
    by (simp add: pressure_def)
  from self_pair_contributes_zero [OF nz i mg gk P refl refl refl]
  have "fst ?G ! 0 ! 0 = 0 \<and> pair_terms 1 ?Pr (density ?P ?P 1 1) (fst ?G) ! 0 ! 0 = 0"
    by blast
  moreover from nz have "0 \<notin> set (density ?P ?P 1 1)" by blast
  ultimately show ?thesis using i mg P by blast
qed

subsection \<open>A single particle\<close>

lemma density_single: "density [p] [p] m h = [m * kernel 0 0 0 h]"
  by (simp add: density_eq)

lemma pressure_acceleration_single:
  "n \<noteq> 0 \<Longrightarrow> pressure_acceleration [p] m h k n = Inr [(0, 0, 0)]"
  by (simp add: pressure_acceleration_eq grad_at_def gradKernel_zero)

lemma acceleration_single:
  "n \<noteq> 0 \<Longrightarrow> acceleration [(x, y, z)] [(u, v, w)] m h k n lmbda nu =
     Inr [(- lmbda * x - nu * u, - lmbda * y - nu * v, - lmbda * z - nu * w)]"
  by (simp add: acceleration_def pressure_acceleration_single broadcast2_def iadd_def)

text \<open>
  C8. For one particle (with \<open>h > 0\<close> and \<open>m > 0\<close>) the density is the particle's own
  kernel value \<open>m * kernel 0 0 0 h\<close>, the pressure part of the acceleration is exactly
  zero, and the acceleration that \<open>acceleration\<close> returns is exactly
  \<open>- lambda * pos - nu * vel\<close>. (It returns whenever the polytropic index is not zero.)
\<close>

theorem single_particle:
  "0 < h \<Longrightarrow> 0 < m \<Longrightarrow>
     density [(x, y, z)] [(x, y, z)] m h = [m * kernel 0 0 0 h]
     \<and> (\<forall>a. pressure_acceleration [(x, y, z)] m h k n = Inr a \<longrightarrow> a = [(0, 0, 0)])
     \<and> (\<forall>a. acceleration [(x, y, z)] [(u, v, w)] m h k n lmbda nu = Inr a \<longrightarrow>
           a = [(- lmbda * x - nu * u, - lmbda * y - nu * v, - lmbda * z - nu * w)])
     \<and> (n \<noteq> 0 \<longrightarrow> (\<exists>a. acceleration [(x, y, z)] [(u, v, w)] m h k n lmbda nu = Inr a))"
proof -
  have d: "density [(x, y, z)] [(x, y, z)] m h = [m * kernel 0 0 0 h]"
    by (rule density_single)
  have p: "a = [(0, 0, 0)]" if r: "pressure_acceleration [(x, y, z)] m h k n = Inr a" for a
  proof -
    have "n \<noteq> 0" using r by (rule pressure_acceleration_Inr)
    then have "pressure_acceleration [(x, y, z)] m h k n = Inr [(0, 0, 0)]"
      by (rule pressure_acceleration_single)
    with r show ?thesis by simp
  qed
  have t: "\<exists>a. acceleration [(x, y, z)] [(u, v, w)] m h k n lmbda nu = Inr a" if "n \<noteq> 0"
    using acceleration_single [OF that, of x y z u v w m h k lmbda nu] by blast
  have a: "a = [(- lmbda * x - nu * u, - lmbda * y - nu * v, - lmbda * z - nu * w)]"
    if r: "acceleration [(x, y, z)] [(u, v, w)] m h k n lmbda nu = Inr a" for a
  proof -
    from r obtain a0 where "pressure_acceleration [(x, y, z)] m h k n = Inr a0"
      by (auto simp: acceleration_def split: sum.splits)
    then have "n \<noteq> 0" by (rule pressure_acceleration_Inr)
    from acceleration_single [OF this, of x y z u v w m h k lmbda nu] r
    show ?thesis by simp
  qed
  from d p t a show ?thesis by blast
qed

theorem single_particle_witness:
  "(0::real) < 1 \<and> (0::real) < 2
   \<and> density [(1, 2, 3)] [(1, 2, 3)] 2 1 = [2 * kernel 0 0 0 1]
   \<and> pressure_acceleration [(1, 2, 3)] 2 1 5 1 = Inr [(0, 0, 0)]
   \<and> acceleration [(1, 2, 3)] [(4, 5, 6)] 2 1 5 1 2 10 = Inr [(- 42, - 54, - 66)]"
proof -
  have h: "(0::real) < 1" and m: "(0::real) < 2" and n: "(1::real) \<noteq> 0"
    by simp_all
  note t = single_particle [OF h m, of 1 2 3 5 1 4 5 6 2 10]
  from t n obtain a where a: "acceleration [(1, 2, 3)] [(4, 5, 6)] 2 1 5 1 2 10 = Inr a"
    by blast
  with t have "a = [(- 2 * 1 - 10 * 4, - 2 * 2 - 10 * 5, - 2 * 3 - 10 * 6)]"
    by blast
  with a have acc: "acceleration [(1, 2, 3)] [(4, 5, 6)] 2 1 5 1 2 10 = Inr [(- 42, - 54, - 66)]"
    by simp
  have pa: "pressure_acceleration [(1, 2, 3)] 2 1 5 1 = Inr [(0, 0, 0)]"
    by (rule pressure_acceleration_single) simp
  from t have "density [(1, 2, 3)] [(1, 2, 3)] 2 1 = [2 * kernel 0 0 0 1]"
    by blast
  with acc pa h m show ?thesis by blast
qed

subsection \<open>The time step\<close>

lemma acceleration_shapes:
  assumes "acceleration pos vel m h k n lmbda nu = Inr a"
  shows "length vel = length pos \<or> length vel = 1"
proof -
  from assms obtain a0 ext where a0: "pressure_acceleration pos m h k n = Inr a0"
    and ext: "broadcast2 vsub (map (smul (- lmbda)) pos) (map (smul nu) vel) = Inr ext"
    and a: "iadd a0 ext = Inr a"
    by (auto simp: acceleration_def split: sum.splits)
  have l: "length a0 = length pos" using a0 by (rule pressure_acceleration_length)
  from a have "length ext = length a0 \<or> length ext = 1"
    by (auto simp: iadd_def split: if_splits)
  with ext l show ?thesis
    by (auto simp: broadcast2_def split: if_splits)
qed

lemma step_Inr:
  assumes "step m h k n lmbda nu dt (pos, vel) = Inr (pos', vel')"
  shows "\<exists>a. acceleration pos vel m h k n lmbda nu = Inr a
     \<and> length vel = length pos \<and> length a = length pos
     \<and> vel' = map2 (\<lambda>v a. vadd v (smul dt a)) vel a
     \<and> pos' = map2 (\<lambda>p v. vadd p (smul dt v)) pos vel'"
proof -
  from assms obtain a where a: "acceleration pos vel m h k n lmbda nu = Inr a"
    and v: "iadd vel (map (smul dt) a) = Inr vel'"
    and p: "iadd pos (map (smul dt) vel') = Inr pos'"
    by (auto simp: step_def split: sum.splits)
  have la: "length a = length pos" using a by (rule acceleration_length)
  from v have "length a = length vel \<or> length a = 1"
    by (auto simp: iadd_def split: if_splits)
  with acceleration_shapes [OF a] la have lv: "length vel = length pos" by auto
  with la v have v': "vel' = map2 (\<lambda>v a. vadd v (smul dt a)) vel a"
    by (auto simp: iadd_def zip_map2 split_def comp_def)
  then have "length vel' = length pos" using la lv by simp
  with p have "pos' = map2 (\<lambda>p v. vadd p (smul dt v)) pos vel'"
    by (auto simp: iadd_def zip_map2 split_def comp_def)
  with a la lv v' show ?thesis by blast
qed

lemma step_total:
  assumes "n \<noteq> 0" "length vel = length pos"
  shows "\<exists>s'. step m h k n lmbda nu dt (pos, vel) = Inr s'"
proof -
  from acceleration_same_length [OF assms, of m h k lmbda nu]
  obtain a where a: "acceleration pos vel m h k n lmbda nu = Inr a" by blast
  then have la: "length a = length pos" by (rule acceleration_length)
  then show ?thesis
    using a assms(2) by (simp add: step_def iadd_def)
qed

text \<open>
  C5. One step of the loop is the semi-implicit Euler step: with \<open>a\<close> the acceleration
  at the position and velocity before the step, the new velocity is \<open>vel + a * dt\<close> and
  the new position is \<open>pos + vel' * dt\<close>, where \<open>vel'\<close> is the new velocity, not the old
  one. (The step returns whenever \<open>n \<noteq> 0\<close> and there are as many velocities as
  positions.)
\<close>

theorem step_semi_implicit_euler:
  "(n \<noteq> 0 \<and> length vel = length pos \<longrightarrow>
      (\<exists>s'. step m h k n lmbda nu dt (pos, vel) = Inr s'))
   \<and> (\<forall>pos' vel'. step m h k n lmbda nu dt (pos, vel) = Inr (pos', vel') \<longrightarrow>
        (\<exists>a. acceleration pos vel m h k n lmbda nu = Inr a
           \<and> length vel = length pos \<and> length a = length pos
           \<and> vel' = map2 (\<lambda>v a. vadd v (smul dt a)) vel a
           \<and> pos' = map2 (\<lambda>p v. vadd p (smul dt v)) pos vel'))"
  using step_total [of n vel pos m h k lmbda nu dt] step_Inr [of m h k n lmbda nu dt pos vel]
  by blast

theorem step_semi_implicit_euler_witness:
  "(1::real) \<noteq> 0 \<and> length [(0::real, 0::real, 0::real)] = length [(1::real, 0::real, 0::real)]
   \<and> acceleration [(1, 0, 0)] [(0, 0, 0)] 1 1 1 1 1 0 = Inr [(- 1, 0, 0)]
   \<and> step 1 1 1 1 1 0 1 ([(1, 0, 0)], [(0, 0, 0)]) = Inr ([(0, 0, 0)], [(- 1, 0, 0)])"
proof -
  let ?P = "[(1, 0, 0)] :: vec list" and ?V = "[(0, 0, 0)] :: vec list"
  have a: "acceleration ?P ?V 1 1 1 1 1 0 = Inr [(- 1, 0, 0)]"
    by (simp add: acceleration_single)
  note t = step_semi_implicit_euler [of 1 ?V ?P 1 1 1 1 0 1]
  from t obtain pos' vel' where s: "step 1 1 1 1 1 0 1 (?P, ?V) = Inr (pos', vel')"
    by auto
  with t a have "vel' = map2 (\<lambda>v a. vadd v (smul 1 a)) ?V [(- 1, 0, 0)]
      \<and> pos' = map2 (\<lambda>p v. vadd p (smul 1 v)) ?P vel'"
    by auto
  then have "vel' = [(- 1, 0, 0)]" "pos' = [(0, 0, 0)]" by simp_all
  with s a show ?thesis by simp
qed

subsection \<open>Which arrays are written\<close>

lemma acceleration_st_Inr:
  assumes pos: "pos < length s" and vel: "vel < length s"
    and r: "acceleration_st s pos vel m h k n lmbda nu = Inr (a, s')"
  shows "a = length s" and "length s' = Suc (length s)"
    and "\<forall>r<length s. s' ! r = s ! r"
    and "acceleration (s ! pos) (s ! vel) m h k n lmbda nu = Inr (s' ! a)"
proof -
  from r obtain a0 ext a' where a0: "pressure_acceleration (s ! pos) m h k n = Inr a0"
    and ext: "broadcast2 vsub (map (smul (- lmbda)) ((s @ [a0]) ! pos))
        (map (smul nu) ((s @ [a0]) ! vel)) = Inr ext"
    and a': "iadd ((s @ [a0]) ! length s) ext = Inr a'"
    and a: "a = length s" and s': "s' = (s @ [a0])[length s := a']"
    by (auto simp: acceleration_st_def alloc_def split: sum.splits)
  show "a = length s" by (rule a)
  show "length s' = Suc (length s)" by (simp add: s')
  show "\<forall>r<length s. s' ! r = s ! r" by (simp add: s' nth_append)
  from ext pos vel a0 a' show "acceleration (s ! pos) (s ! vel) m h k n lmbda nu = Inr (s' ! a)"
    by (simp add: acceleration_def nth_append a s')
qed

lemma acceleration_st_total:
  assumes pos: "pos < length s" and vel: "vel < length s"
    and r: "acceleration (s ! pos) (s ! vel) m h k n lmbda nu = Inr acc"
  shows "\<exists>s'. acceleration_st s pos vel m h k n lmbda nu = Inr (length s, s') \<and> s' ! length s = acc"
  using assms
  by (auto simp: acceleration_st_def acceleration_def alloc_def nth_append split: sum.splits)

lemma step_st_Inr:
  assumes pos: "pos < length s" and vel: "vel < length s" and ne: "pos \<noteq> vel"
    and r: "step_st s pos vel m h k n lmbda nu dt = Inr s'"
  shows "step m h k n lmbda nu dt (s ! pos, s ! vel) = Inr (s' ! pos, s' ! vel)"
    and "\<forall>r<length s. r \<noteq> pos \<longrightarrow> r \<noteq> vel \<longrightarrow> s' ! r = s ! r"
proof -
  from r obtain a s1 v p where acc: "acceleration_st s pos vel m h k n lmbda nu = Inr (a, s1)"
    and v: "iadd (s1 ! vel) (map (smul dt) (s1 ! a)) = Inr v"
    and p: "iadd (s1[vel := v] ! pos) (map (smul dt) (s1[vel := v] ! vel)) = Inr p"
    and s': "s' = s1[vel := v, pos := p]"
    by (auto simp: step_st_def Let_def split: sum.splits prod.splits)
  note f = acceleration_st_Inr [OF pos vel acc]
  have l: "pos < length s1" "vel < length s1" using f(2) pos vel by simp_all
  have old: "s1 ! pos = s ! pos" "s1 ! vel = s ! vel" using f(3) pos vel by simp_all
  from v p show "step m h k n lmbda nu dt (s ! pos, s ! vel) = Inr (s' ! pos, s' ! vel)"
    using ne l by (simp add: step_def f(4) old s')
  show "\<forall>r<length s. r \<noteq> pos \<longrightarrow> r \<noteq> vel \<longrightarrow> s' ! r = s ! r"
    using f(3) by (simp add: s')
qed

lemma step_st_total:
  assumes pos: "pos < length s" and vel: "vel < length s" and ne: "pos \<noteq> vel"
    and r: "step m h k n lmbda nu dt (s ! pos, s ! vel) = Inr s'"
  shows "\<exists>s''. step_st s pos vel m h k n lmbda nu dt = Inr s''"
proof -
  from r obtain acc v p where acc: "acceleration (s ! pos) (s ! vel) m h k n lmbda nu = Inr acc"
    and v: "iadd (s ! vel) (map (smul dt) acc) = Inr v"
    and p: "iadd (s ! pos) (map (smul dt) v) = Inr p"
    by (auto simp: step_def split: sum.splits)
  from acceleration_st_total [OF pos vel acc] obtain s1
    where s1: "acceleration_st s pos vel m h k n lmbda nu = Inr (length s, s1)"
      and a: "s1 ! length s = acc"
    by blast
  note f = acceleration_st_Inr [OF pos vel s1]
  have l: "pos < length s1" "vel < length s1" using f(2) pos vel by simp_all
  have old: "s1 ! pos = s ! pos" "s1 ! vel = s ! vel" using f(3) pos vel by simp_all
  show ?thesis
    using v p ne l by (simp add: step_st_def s1 a old Let_def)
qed

text \<open>
  C9. The derived quantities do not write the particles. A call of \<open>acceleration\<close> (and
  with it the calls of \<open>density\<close>, \<open>pressure\<close>, \<open>magnitude\<close>, \<open>gradKernel\<close> and \<open>kernel\<close> that
  it makes) leaves every array of the store as it was, the positions and the velocities
  among them, and returns a new array, which holds the acceleration. The step of the
  loop writes the array of the positions and the array of the velocities, to the values
  of \<open>step\<close>, and no other array that was there before. (With the store, the call and
  the step return whenever they return on the values of the arrays.)
\<close>

theorem only_the_step_writes_particles:
  "pos < length s \<Longrightarrow> vel < length s \<Longrightarrow>
     (\<forall>a s'. acceleration_st s pos vel m h k n lmbda nu = Inr (a, s') \<longrightarrow>
         a = length s \<and> length s' = Suc (length s)
         \<and> (\<forall>r<length s. s' ! r = s ! r)
         \<and> s' ! pos = s ! pos \<and> s' ! vel = s ! vel
         \<and> acceleration (s ! pos) (s ! vel) m h k n lmbda nu = Inr (s' ! a))
     \<and> (\<forall>acc. acceleration (s ! pos) (s ! vel) m h k n lmbda nu = Inr acc \<longrightarrow>
         (\<exists>s'. acceleration_st s pos vel m h k n lmbda nu = Inr (length s, s')))
     \<and> (\<forall>s'. pos \<noteq> vel \<and> step_st s pos vel m h k n lmbda nu dt = Inr s' \<longrightarrow>
         step m h k n lmbda nu dt (s ! pos, s ! vel) = Inr (s' ! pos, s' ! vel)
         \<and> (\<forall>r<length s. r \<noteq> pos \<longrightarrow> r \<noteq> vel \<longrightarrow> s' ! r = s ! r))
     \<and> (\<forall>t. pos \<noteq> vel \<and> step m h k n lmbda nu dt (s ! pos, s ! vel) = Inr t \<longrightarrow>
         (\<exists>s'. step_st s pos vel m h k n lmbda nu dt = Inr s'))"
proof -
  assume pos: "pos < length s" and vel: "vel < length s"
  have acc: "a = length s \<and> length s' = Suc (length s)
      \<and> (\<forall>r<length s. s' ! r = s ! r)
      \<and> s' ! pos = s ! pos \<and> s' ! vel = s ! vel
      \<and> acceleration (s ! pos) (s ! vel) m h k n lmbda nu = Inr (s' ! a)"
    if r: "acceleration_st s pos vel m h k n lmbda nu = Inr (a, s')" for a s'
  proof -
    note f = acceleration_st_Inr [OF pos vel r]
    from f(3) pos vel have "s' ! pos = s ! pos" "s' ! vel = s ! vel" by simp_all
    with f show ?thesis by simp
  qed
  have acc_total: "\<exists>s'. acceleration_st s pos vel m h k n lmbda nu = Inr (length s, s')"
    if "acceleration (s ! pos) (s ! vel) m h k n lmbda nu = Inr acc" for acc
    using acceleration_st_total [OF pos vel that] by blast
  have st: "step m h k n lmbda nu dt (s ! pos, s ! vel) = Inr (s' ! pos, s' ! vel)
      \<and> (\<forall>r<length s. r \<noteq> pos \<longrightarrow> r \<noteq> vel \<longrightarrow> s' ! r = s ! r)"
    if r: "pos \<noteq> vel \<and> step_st s pos vel m h k n lmbda nu dt = Inr s'" for s'
    using step_st_Inr [OF pos vel, of m h k n lmbda nu dt s'] r by simp
  have st_total: "\<exists>s'. step_st s pos vel m h k n lmbda nu dt = Inr s'"
    if "pos \<noteq> vel \<and> step m h k n lmbda nu dt (s ! pos, s ! vel) = Inr t" for t
    using step_st_total [OF pos vel, of m h k n lmbda nu dt t] that by simp
  from acc acc_total st st_total show ?thesis by blast
qed

theorem only_the_step_writes_particles_witness:
  "(0::nat) < length [[(1, 0, 0)], [(0::real, 0::real, 0::real)]]
   \<and> (1::nat) < length [[(1, 0, 0)], [(0::real, 0::real, 0::real)]]
   \<and> acceleration_st [[(1, 0, 0)], [(0, 0, 0)]] 0 1 1 1 1 1 1 0
        = Inr (2, [[(1, 0, 0)], [(0, 0, 0)], [(- 1, 0, 0)]])
   \<and> acceleration ([[(1, 0, 0)], [(0, 0, 0)]] ! 0) ([[(1, 0, 0)], [(0, 0, 0)]] ! 1) 1 1 1 1 1 0
        = Inr ([[(1, 0, 0)], [(0, 0, 0)], [(- 1, 0, 0)]] ! 2)
   \<and> (0::nat) \<noteq> 1
   \<and> step_st [[(1, 0, 0)], [(0, 0, 0)]] 0 1 1 1 1 1 1 0 1
        = Inr [[(0, 0, 0)], [(- 1, 0, 0)], [(- 1, 0, 0)]]
   \<and> step 1 1 1 1 1 0 1 ([[(1, 0, 0)], [(0, 0, 0)]] ! 0, [[(1, 0, 0)], [(0, 0, 0)]] ! 1)
        = Inr ([[(0, 0, 0)], [(- 1, 0, 0)], [(- 1, 0, 0)]] ! 0, [[(0, 0, 0)], [(- 1, 0, 0)], [(- 1, 0, 0)]] ! 1)"
proof -
  let ?S = "[[(1, 0, 0)], [(0, 0, 0)]] :: store"
  have p: "(0::nat) < length ?S" and v: "(1::nat) < length ?S" by simp_all
  have a: "acceleration_st ?S 0 1 1 1 1 1 1 0 = Inr (2, [[(1, 0, 0)], [(0, 0, 0)], [(- 1, 0, 0)]])"
    by (simp add: acceleration_st_def pressure_acceleration_single alloc_def broadcast2_def iadd_def)
  have s: "step_st ?S 0 1 1 1 1 1 1 0 1 = Inr [[(0, 0, 0)], [(- 1, 0, 0)], [(- 1, 0, 0)]]"
    using a by (simp add: step_st_def iadd_def)
  note t = only_the_step_writes_particles [OF p v, of 1 1 1 1 1 0 1]
  from t a have "acceleration (?S ! 0) (?S ! 1) 1 1 1 1 1 0
      = Inr ([[(1, 0, 0)], [(0, 0, 0)], [(- 1, 0, 0)]] ! 2)"
    by blast
  moreover have ne: "(0::nat) \<noteq> 1" by simp
  from t s ne have "step 1 1 1 1 1 0 1 (?S ! 0, ?S ! 1)
      = Inr ([[(0, 0, 0)], [(- 1, 0, 0)], [(- 1, 0, 0)]] ! 0, [[(0, 0, 0)], [(- 1, 0, 0)], [(- 1, 0, 0)]] ! 1)"
    by blast
  ultimately show ?thesis using p v a s by simp
qed

end
